theory Spec2Isabelle
  imports Main "HOL-Library.Sublist"
begin

section \<open>JavaScript values used by the action\<close>

text \<open>
  A thrown \<^verbatim>\<open>new Error(message)\<close> is the value \<open>Error message\<close>; a function that
  may throw returns \<open>error + 'a\<close> with \<open>Inl\<close> for the throw.  An optional string
  property (\<^verbatim>\<open>versionSpec?: string\<close>) is a \<open>string option\<close>, \<open>None\<close> being
  \<^verbatim>\<open>undefined\<close>.  Strings are lists of characters; the inputs of interest (target
  triples, file names, URLs, tags) are ASCII.
\<close>

datatype error = Error string

definition truthy :: "string \<Rightarrow> bool" where
  \<comment> \<open>a string in a boolean position: only the empty string is falsy\<close>
  "truthy s = (s \<noteq> [])"

definition truthy_opt :: "string option \<Rightarrow> bool" where
  \<comment> \<open>an optional string in a boolean position: \<^verbatim>\<open>undefined\<close> and \<^verbatim>\<open>""\<close> are falsy\<close>
  "truthy_opt v = (case v of None \<Rightarrow> False | Some s \<Rightarrow> truthy s)"

definition template :: "string option \<Rightarrow> string" where
  \<comment> \<open>an optional string interpolated into a template literal\<close>
  "template v = (case v of None \<Rightarrow> ''undefined'' | Some s \<Rightarrow> s)"

text \<open>\<^verbatim>\<open>s.includes(t)\<close>: \<open>t\<close> occurs in \<open>s\<close> as a contiguous substring.\<close>

fun str_includes :: "string \<Rightarrow> string \<Rightarrow> bool" where
  "str_includes [] t = (t = [])"
| "str_includes (c # cs) t = (prefix t (c # cs) \<or> str_includes cs t)"

definition endsWith :: "string \<Rightarrow> string \<Rightarrow> bool" where
  \<comment> \<open>\<^verbatim>\<open>s.endsWith(t)\<close>\<close>
  "endsWith s t = prefix (rev t) (rev s)"

definition strip_v :: "string \<Rightarrow> string" where
  \<comment> \<open>\<^verbatim>\<open>tag.replace(/^v/, "")\<close>: drops one leading \<^verbatim>\<open>v\<close>\<close>
  "strip_v s = (case s of [] \<Rightarrow> [] | c # r \<Rightarrow> if c = CHR ''v'' then r else s)"

definition lower_char :: "char \<Rightarrow> char" where
  "lower_char c =
     (case map_of (zip ''ABCDEFGHIJKLMNOPQRSTUVWXYZ'' ''abcdefghijklmnopqrstuvwxyz'') c of
        None \<Rightarrow> c
      | Some l \<Rightarrow> l)"

definition toLowerCase :: "string \<Rightarrow> string" where
  \<comment> \<open>\<^verbatim>\<open>s.toLowerCase()\<close> on ASCII strings\<close>
  "toLowerCase s = map lower_char s"

text \<open>\<^verbatim>\<open>s.split(sep)\<close> for a one-character separator.\<close>

fun split_on :: "char \<Rightarrow> string \<Rightarrow> string list" where
  "split_on sep [] = [[]]"
| "split_on sep (c # cs) =
     (if c = sep then [] # split_on sep cs
      else (case split_on sep cs of
              [] \<Rightarrow> [[c]]
            | p # ps \<Rightarrow> (c # p) # ps))"

definition split2 :: "char \<Rightarrow> string \<Rightarrow> string \<times> string option" where
  \<comment> \<open>\<^verbatim>\<open>const [a, b] = s.split(sep, 2)\<close>: the first piece, and the second when there is one\<close>
  "split2 sep s =
     (case take 2 (split_on sep s) of
        [] \<Rightarrow> ([], None)
      | [a] \<Rightarrow> (a, None)
      | a # b # _ \<Rightarrow> (a, Some b))"


section \<open>Target resolution (getTargets)\<close>

definition getTargets :: "string \<Rightarrow> string \<Rightarrow> error + string list" where
  \<comment> \<open>the two arguments are \<^verbatim>\<open>process.arch\<close> and \<^verbatim>\<open>process.platform\<close>\<close>
  "getTargets arch platform =
     (let failed = Inl (Error (''failed to determine any valid targets; arch = '' @ arch
                                @ '', platform = '' @ platform));
          arm = (if arch = ''arm64'' then
                   (if platform = ''linux'' then
                      Inr [''aarch64-unknown-linux-musl'', ''aarch64-unknown-linux-gnu'']
                    else if platform = ''darwin'' then
                      Inr [''aarch64-apple-darwin'']
                    else failed)
                 else failed)
      in if arch = ''x64'' then
           (if platform = ''linux'' then
              Inr [''x86_64-unknown-linux-musl'', ''x86_64-unknown-linux-gnu'']
            else if platform = ''darwin'' then
              Inr [''x86_64-apple-darwin'']
            else if platform = ''win32'' then
              Inr [''x86_64-pc-windows-msvc'']
            else arm)
         else arm)"

definition supported_table :: "(string \<times> string) list" where
  \<comment> \<open>the (Arch, Node Platform) rows of the table in the README\<close>
  "supported_table =
     [(''x64'', ''linux''), (''x64'', ''darwin''), (''x64'', ''win32''),
      (''arm64'', ''linux''), (''arm64'', ''darwin'')]"


section \<open>Data model\<close>

text \<open>
  The interfaces of the package (Tool, Release, InstalledTool) and the two shapes of the
  release listing that the code reads: an asset (\<^verbatim>\<open>name\<close>, \<^verbatim>\<open>browser_download_url\<close>)
  and a listed release (\<^verbatim>\<open>tag_name\<close>, \<^verbatim>\<open>assets\<close>).  An InstalledTool is built as
  \<^verbatim>\<open>{ version, dir, ...tool }\<close>, so it extends the tool it was built from.
\<close>

record asset =
  name :: string
  browser_download_url :: string

record gh_release =
  tag_name :: string
  assets :: "asset list"

record tool =
  owner :: string
  name :: string
  versionSpec :: "string option"
  bin :: "string option"

record release =
  version :: string
  downloadUrl :: string

record installed_tool = tool +
  version :: string
  dir :: string


section \<open>The environment: file system, services, effects\<close>

text \<open>
  The file system as the code observes it: \<open>nodes\<close> is what \<^verbatim>\<open>lstat\<close> reports for a
  path (whether it is a directory, and its permission bits), \<open>listing\<close> is what
  \<^verbatim>\<open>readdir\<close> returns for a directory, in its order.  Paths are strings;
  \<^verbatim>\<open>path.join\<close> is modelled for a directory and a plain entry name (no \<^verbatim>\<open>.\<close>,
  \<^verbatim>\<open>..\<close> or separator inside), where it puts one separator between the two.
\<close>

record node =
  is_dir :: bool
  mode :: nat

record fs =
  nodes :: "string \<rightharpoonup> node"
  listing :: "string \<rightharpoonup> string list"

definition path_join :: "string \<Rightarrow> string \<Rightarrow> string" where
  "path_join d f = d @ ''/'' @ f"

definition strip_trailing :: "string \<Rightarrow> string" where
  "strip_trailing p = rev (dropWhile (\<lambda>c. c = CHR ''/'') (rev p))"

definition basename :: "string \<Rightarrow> string" where
  \<comment> \<open>\<^verbatim>\<open>path.basename\<close>: the last component\<close>
  "basename p = rev (takeWhile (\<lambda>c. c \<noteq> CHR ''/'') (rev (strip_trailing p)))"

definition dirname :: "string \<Rightarrow> string" where
  \<comment> \<open>\<^verbatim>\<open>path.dirname\<close>: everything before the last component\<close>
  "dirname p =
     (let d = strip_trailing
                (rev (dropWhile (\<lambda>c. c \<noteq> CHR ''/'') (rev (strip_trailing p))))
      in if d = [] then (if take 1 p = ''/'' then ''/'' else ''.'') else d)"

text \<open>
  Every call that leaves the process is recorded, in order, in a trace: requests to the
  release listing, the download, the tool cache, and each file-system call.
\<close>

datatype event =
    ListReleases string string nat
  | DownloadTool string
  | ExtractZip string
  | ExtractTar string
  | CacheFind string string
  | CacheDir string string string
  | Mkdir string
  | Rename string string
  | Readdir string
  | Lstat string
  | Access string
  | Chmod string nat

record world =
  files :: fs
  trace :: "event list"

text \<open>One page of the release listing, or the request for it failing.\<close>

datatype page_result = Page "gh_release list" | RequestFailed error

text \<open>
  What the code does not own is a parameter: the host (\<^verbatim>\<open>process.arch\<close>,
  \<^verbatim>\<open>process.platform\<close>), the pages the release listing serves for an owner and a
  repository (newest first), \<^verbatim>\<open>semver.satisfies\<close>, and the tool cache's \<^verbatim>\<open>find\<close>,
  \<^verbatim>\<open>downloadTool\<close>, \<^verbatim>\<open>extractZip\<close>, \<^verbatim>\<open>extractTar\<close> and \<^verbatim>\<open>cacheDir\<close>, each a
  function of the file system that may throw.
\<close>

record env =
  arch :: string
  platform :: string
  release_pages :: "string \<Rightarrow> string \<Rightarrow> page_result list"
  satisfies :: "string \<Rightarrow> string \<Rightarrow> bool"
  tc_find :: "string \<Rightarrow> string \<Rightarrow> fs \<Rightarrow> error + string"
  tc_downloadTool :: "string \<Rightarrow> fs \<Rightarrow> (error + string) \<times> fs"
  tc_extractZip :: "string \<Rightarrow> fs \<Rightarrow> (error + string) \<times> fs"
  tc_extractTar :: "string \<Rightarrow> fs \<Rightarrow> (error + string) \<times> fs"
  tc_cacheDir :: "string \<Rightarrow> string \<Rightarrow> string \<Rightarrow> fs \<Rightarrow> (error + string) \<times> fs"

text \<open>
  An asynchronous computation: from a world to a result (or a thrown error) and the
  world it leaves.  \<open>bind\<close> is \<^verbatim>\<open>await\<close> followed by the rest of the function: a throw
  skips the rest and keeps the effects already made.  \<open>catch\<close> is \<^verbatim>\<open>try/catch\<close>.
\<close>

type_synonym 'a io = "world \<Rightarrow> (error + 'a) \<times> world"

definition ret :: "'a \<Rightarrow> 'a io" where
  "ret x w = (Inr x, w)"

definition throw :: "error \<Rightarrow> 'a io" where
  "throw e w = (Inl e, w)"

definition bind :: "'a io \<Rightarrow> ('a \<Rightarrow> 'b io) \<Rightarrow> 'b io" where
  "bind m f w = (case m w of (Inl e, w') \<Rightarrow> (Inl e, w') | (Inr x, w') \<Rightarrow> f x w')"

definition catch :: "'a io \<Rightarrow> (error \<Rightarrow> 'a io) \<Rightarrow> 'a io" where
  "catch m h w = (case m w of (Inl e, w') \<Rightarrow> h e w' | (Inr x, w') \<Rightarrow> (Inr x, w'))"

definition emit :: "event \<Rightarrow> unit io" where
  "emit ev w = (Inr (), w\<lparr>trace := trace w @ [ev]\<rparr>)"

definition service :: "event \<Rightarrow> (fs \<Rightarrow> (error + 'a) \<times> fs) \<Rightarrow> 'a io" where
  \<comment> \<open>a call to an external service: recorded, then its result and its file system\<close>
  "service ev f w =
     (case f (files w) of (r, fs') \<Rightarrow> (r, \<lparr>files = fs', trace = trace w @ [ev]\<rparr>))"


subsection \<open>File-system calls of the Node library\<close>

text \<open>
  \<^verbatim>\<open>fs.readdir\<close>, \<^verbatim>\<open>fs.lstat\<close>, \<^verbatim>\<open>fs.access(p, X_OK)\<close> and \<^verbatim>\<open>fs.chmod\<close> reject
  when the path does not exist.  The process runs as the owner of the files it
  installs, so the executability check reads the owner's execute bit (octal 100).
\<close>

definition fs_readdir :: "string \<Rightarrow> string list io" where
  "fs_readdir d =
     bind (emit (Readdir d)) (\<lambda>_ w.
       case listing (files w) d of
         None \<Rightarrow> (Inl (Error (''ENOENT: no such directory, scandir '' @ d)), w)
       | Some es \<Rightarrow> (Inr es, w))"

definition fs_lstat :: "string \<Rightarrow> node io" where
  "fs_lstat p =
     bind (emit (Lstat p)) (\<lambda>_ w.
       case nodes (files w) p of
         None \<Rightarrow> (Inl (Error (''ENOENT: no such file or directory, lstat '' @ p)), w)
       | Some n \<Rightarrow> (Inr n, w))"

definition may_execute :: "nat \<Rightarrow> bool" where
  "may_execute m = ((m div 64) mod 2 = 1)"

definition fs_access_X_OK :: "string \<Rightarrow> unit io" where
  "fs_access_X_OK p =
     bind (emit (Access p)) (\<lambda>_ w.
       case nodes (files w) p of
         None \<Rightarrow> (Inl (Error (''ENOENT: no such file or directory, access '' @ p)), w)
       | Some n \<Rightarrow>
           if may_execute (mode n) then (Inr (), w)
           else (Inl (Error (''EACCES: permission denied, access '' @ p)), w))"

definition fs_chmod :: "string \<Rightarrow> nat \<Rightarrow> unit io" where
  "fs_chmod p m =
     bind (emit (Chmod p m)) (\<lambda>_ w.
       case nodes (files w) p of
         None \<Rightarrow> (Inl (Error (''ENOENT: no such file or directory, chmod '' @ p)), w)
       | Some n \<Rightarrow>
           (Inr (), w\<lparr>files := (files w)\<lparr>nodes := (nodes (files w))(p \<mapsto> n\<lparr>mode := m\<rparr>)\<rparr>\<rparr>))"

text \<open>
  \<^verbatim>\<open>fs.mkdir(p, { recursive: true })\<close> creates every missing directory on the way to
  \<open>p\<close> and fulfils with the first directory it created, or with \<^verbatim>\<open>undefined\<close>
  (\<open>None\<close>) when it created none because \<open>p\<close> is already a directory.
\<close>

fun path_prefixes :: "string \<Rightarrow> string \<Rightarrow> string list" where
  "path_prefixes acc [] = [acc]"
| "path_prefixes acc (c # cs) =
     (if c = CHR ''/'' \<and> acc \<noteq> [] then acc # path_prefixes (acc @ [c]) cs
      else path_prefixes (acc @ [c]) cs)"

definition add_entry :: "fs \<Rightarrow> string \<Rightarrow> (string \<rightharpoonup> string list)" where
  \<comment> \<open>the listings once \<open>p\<close> has been entered in its parent directory\<close>
  "add_entry f p =
     (case listing f (dirname p) of
        None \<Rightarrow> listing f
      | Some es \<Rightarrow>
          if basename p \<in> set es then listing f
          else (listing f)(dirname p \<mapsto> es @ [basename p]))"

definition create_dir :: "fs \<Rightarrow> string \<Rightarrow> fs" where
  \<comment> \<open>a new empty directory, mode 0755 (decimal 493)\<close>
  "create_dir f p =
     \<lparr>nodes = (nodes f)(p \<mapsto> \<lparr>is_dir = True, mode = 493\<rparr>),
      listing = (add_entry f p)(p \<mapsto> [])\<rparr>"

fun mkdirs :: "fs \<Rightarrow> string list \<Rightarrow> string option \<Rightarrow> (error + string option) \<times> fs" where
  "mkdirs f [] first = (Inr first, f)"
| "mkdirs f (p # ps) first =
     (case nodes f p of
        Some n \<Rightarrow>
          if is_dir n then mkdirs f ps first
          else (Inl (Error (''EEXIST: file already exists, mkdir '' @ p)), f)
      | None \<Rightarrow>
          mkdirs (create_dir f p) ps (case first of None \<Rightarrow> Some p | Some q \<Rightarrow> Some q))"

definition fs_mkdir_recursive :: "string \<Rightarrow> string option io" where
  "fs_mkdir_recursive p =
     service (Mkdir p) (\<lambda>f. mkdirs f (path_prefixes [] p) None)"

text \<open>
  \<^verbatim>\<open>fs.rename(a, b)\<close> moves the node at \<open>a\<close> to \<open>b\<close>.  The code does not await
  its promise, so a failure of the move never reaches the caller; the model lets the
  move take effect before the next call.
\<close>

definition move_node :: "fs \<Rightarrow> string \<Rightarrow> string \<Rightarrow> fs" where
  "move_node f a b =
     (case nodes f a of
        None \<Rightarrow> f
      | Some n \<Rightarrow>
          (let removed = (case listing f (dirname a) of
                            None \<Rightarrow> listing f
                          | Some es \<Rightarrow> (listing f)(dirname a \<mapsto> removeAll (basename a) es));
               f1 = \<lparr>nodes = ((nodes f)(a := None))(b \<mapsto> n), listing = removed\<rparr>
           in f1\<lparr>listing := add_entry f1 b\<rparr>))"

definition fs_rename_detached :: "string \<Rightarrow> string \<Rightarrow> unit io" where
  "fs_rename_detached a b = service (Rename a b) (\<lambda>f. (Inr (), move_node f a b))"


section \<open>Release lookup (getRelease)\<close>

text \<open>
  \<^verbatim>\<open>octokit.paginate(route, parameters, mapFn)\<close> belongs to the client library: it
  requests the pages one at a time, hands each response to \<open>mapFn\<close> together with a
  \<^verbatim>\<open>done\<close> callback, appends what \<open>mapFn\<close> returns to the results, and requests no
  further page once \<^verbatim>\<open>done\<close> has been called or the listing has ended.  Here \<open>mapFn\<close>
  returns its list paired with whether it called \<^verbatim>\<open>done\<close>; pages are numbered from 1.
\<close>

primrec gather ::
  "(gh_release list \<Rightarrow> 'a list \<times> bool) \<Rightarrow> string \<Rightarrow> string \<Rightarrow> page_result list
     \<Rightarrow> nat \<Rightarrow> 'a list \<Rightarrow> 'a list io" where
  "gather mapFn ow repo [] n results = ret results"
| "gather mapFn ow repo (p # ps) n results =
     bind (emit (ListReleases ow repo n)) (\<lambda>_.
       case p of
         RequestFailed e \<Rightarrow> throw e
       | Page data \<Rightarrow>
           (case mapFn data of
              (out, early) \<Rightarrow>
                if early then ret (results @ out)
                else gather mapFn ow repo ps (Suc n) (results @ out)))"

definition paginate ::
  "(gh_release list \<Rightarrow> 'a list \<times> bool) \<Rightarrow> string \<Rightarrow> string \<Rightarrow> page_result list \<Rightarrow> 'a list io" where
  "paginate mapFn ow repo pages = gather mapFn ow repo pages 1 []"

definition find_asset :: "string list \<Rightarrow> asset list \<Rightarrow> asset option" where
  \<comment> \<open>\<^verbatim>\<open>rel.assets.find((ass) => targets.some((target) => ass.name.includes(target)))\<close>\<close>
  "find_asset targets as =
     find (\<lambda>ass. list_ex (\<lambda>target. str_includes (asset.name ass) target) targets) as"

definition to_release :: "string list \<Rightarrow> gh_release \<Rightarrow> release option" where
  \<comment> \<open>the function mapped over a page; \<open>None\<close> is the \<^verbatim>\<open>undefined\<close> of a release without asset\<close>
  "to_release targets rel =
     (case find_asset targets (assets rel) of
        None \<Rightarrow> None
      | Some ass \<Rightarrow>
          Some \<lparr>release.version = strip_v (tag_name rel),
                downloadUrl = browser_download_url ass\<rparr>)"

definition version_ok :: "(string \<Rightarrow> string \<Rightarrow> bool) \<Rightarrow> string option \<Rightarrow> release option \<Rightarrow> bool" where
  \<comment> \<open>\<^verbatim>\<open>rel && versionSpec ? semver.satisfies(rel.version, versionSpec) : true\<close>\<close>
  "version_ok sat vspec rel =
     (case rel of
        None \<Rightarrow> True
      | Some r \<Rightarrow>
          (case vspec of
             None \<Rightarrow> True
           | Some v \<Rightarrow> if truthy v then sat (release.version r) v else True))"

definition page_releases ::
  "(string \<Rightarrow> string \<Rightarrow> bool) \<Rightarrow> string list \<Rightarrow> string option \<Rightarrow> gh_release list
     \<Rightarrow> release option list \<times> bool" where
  \<comment> \<open>the callback given to paginate: map, the two filters, and \<^verbatim>\<open>done()\<close> on a non-empty result\<close>
  "page_releases sat targets vspec data =
     (let releases = filter (version_ok sat vspec)
                       (filter (\<lambda>rel. rel \<noteq> None) (map (to_release targets) data))
      in (releases, length releases > 0))"

definition getRelease :: "env \<Rightarrow> tool \<Rightarrow> release io" where
  "getRelease e t =
     (case getTargets (arch e) (platform e) of
        Inl err \<Rightarrow> throw err
      | Inr targets \<Rightarrow>
          bind (paginate (page_releases (satisfies e) targets (versionSpec t))
                  (owner t) (tool.name t) (release_pages e (owner t) (tool.name t)))
            (\<lambda>releases.
               case find (\<lambda>r. r \<noteq> None) releases of
                 Some (Some r) \<Rightarrow> ret r
               | _ \<Rightarrow> throw (Error (''no release for '' @ tool.name t
                                     @ '' matching version specifier ''
                                     @ template (versionSpec t)))))"


section \<open>Permission repair (handleBadBinaryPermissions)\<close>

definition findBin :: "string \<Rightarrow> string \<Rightarrow> string io" where
  \<comment> \<open>the first entry of the directory equal to the tool's name up to case, else the name\<close>
  "findBin nm d =
     bind (fs_readdir d) (\<lambda>entries.
       case find (\<lambda>file. toLowerCase file = toLowerCase nm) entries of
         Some file \<Rightarrow> ret file
       | None \<Rightarrow> ret nm)"

definition handleBadBinaryPermissions :: "env \<Rightarrow> tool \<Rightarrow> string \<Rightarrow> unit io" where
  "handleBadBinaryPermissions e t d =
     (if platform e \<noteq> ''win32'' then
        bind (case bin t of
                Some b \<Rightarrow> if truthy b then ret b else findBin (tool.name t) d
              | None \<Rightarrow> findBin (tool.name t) d)
          (\<lambda>b. let binary = path_join d b
                in catch (fs_access_X_OK binary) (\<lambda>_. fs_chmod binary 493))
      else ret ())"


section \<open>Installation (checkOrInstallTool)\<close>

definition staging_dir :: string where
  "staging_dir = ''/tmp/extractions-setup-crate-binaries''"

definition stage_binary :: "string \<Rightarrow> string \<Rightarrow> string io" where
  \<comment> \<open>the last branch of the extraction: a download that is no archive\<close>
  "stage_binary nm artifact =
     bind (fs_mkdir_recursive staging_dir) (\<lambda>extractDir.
       case extractDir of
         None \<Rightarrow> throw (Error ''Failed to create temporary directory for binary extraction'')
       | Some d \<Rightarrow>
           if \<not> truthy d then
             throw (Error ''Failed to create temporary directory for binary extraction'')
           else
             (let newPath = path_join d nm
              in bind (fs_rename_detached artifact newPath) (\<lambda>_. ret d)))"

definition extract_artifact :: "env \<Rightarrow> string \<Rightarrow> string \<Rightarrow> string \<Rightarrow> string io" where
  \<comment> \<open>the branch on the suffix of the download URL\<close>
  "extract_artifact e nm url artifact =
     (if endsWith url ''.zip'' then
        service (ExtractZip artifact) (tc_extractZip e artifact)
      else if endsWith url ''.tar.gz'' \<or> endsWith url ''.tgz'' then
        service (ExtractTar artifact) (tc_extractTar e artifact)
      else stage_binary nm artifact)"

definition single_directory :: "string \<Rightarrow> string io" where
  \<comment> \<open>"handle the case where there is a single directory extracted"\<close>
  "single_directory extractDir =
     bind (fs_readdir extractDir) (\<lambda>entries.
       case entries of
         [f] \<Rightarrow>
           (let maybeDir = path_join extractDir f
            in bind (fs_lstat maybeDir) (\<lambda>st.
                 if is_dir st then ret maybeDir else ret extractDir))
       | _ \<Rightarrow> ret extractDir)"

definition cache_extracted :: "env \<Rightarrow> string \<Rightarrow> string \<Rightarrow> string \<Rightarrow> string io" where
  \<comment> \<open>the single-directory step and \<^verbatim>\<open>tc.cacheDir(extractDir, name, version)\<close> after it\<close>
  "cache_extracted e nm ver extractDir =
     bind (single_directory extractDir) (\<lambda>d.
       service (CacheDir d nm ver) (tc_cacheDir e d nm ver))"

definition find_spec :: "tool \<Rightarrow> string" where
  \<comment> \<open>\<^verbatim>\<open>versionSpec || "*"\<close>\<close>
  "find_spec t =
     (case versionSpec t of
        None \<Rightarrow> ''*''
      | Some v \<Rightarrow> if truthy v then v else ''*'')"

definition install :: "env \<Rightarrow> tool \<Rightarrow> string io" where
  \<comment> \<open>the body of \<^verbatim>\<open>if (!dir)\<close>: what a cache miss does\<close>
  "install e t =
     bind (getRelease e t) (\<lambda>r.
     bind (service (DownloadTool (downloadUrl r)) (tc_downloadTool e (downloadUrl r))) (\<lambda>artifact.
     bind (extract_artifact e (tool.name t) (downloadUrl r) artifact) (\<lambda>extractDir.
     bind (cache_extracted e (tool.name t) (release.version r) extractDir) (\<lambda>d.
     bind (handleBadBinaryPermissions e t d) (\<lambda>_. ret d)))))"

definition checkOrInstallTool :: "env \<Rightarrow> tool \<Rightarrow> installed_tool io" where
  "checkOrInstallTool e t =
     bind (service (CacheFind (tool.name t) (find_spec t))
             (\<lambda>f. (tc_find e (tool.name t) (find_spec t) f, f))) (\<lambda>found.
     bind (if \<not> truthy found then install e t else ret found) (\<lambda>d.
       ret (tool.extend t
              \<lparr>installed_tool.version = basename (dirname d), dir = d\<rparr>)))"


section \<open>The action's entry point (main)\<close>

text \<open>
  The inputs are read with \<^verbatim>\<open>core.getInput\<close>, which gives the empty string for an
  input that was not supplied.  A run ends in \<^verbatim>\<open>core.setFailed(message)\<close> or in
  \<^verbatim>\<open>core.addPath(tool.dir)\<close> followed by the notice.  A combined spec without a
  \<^verbatim>\<open>/\<close> leaves the name \<^verbatim>\<open>undefined\<close>; the tool record holds the empty string
  for it, which like \<^verbatim>\<open>undefined\<close> is falsy, and the first use of the name is the
  cache lookup.  The token only authenticates the requests and decides nothing here.
\<close>

datatype outcome = SetFailed string | AddPath string string

definition main ::
  "env \<Rightarrow> string \<Rightarrow> string \<Rightarrow> string \<Rightarrow> string \<Rightarrow> string \<Rightarrow> world \<Rightarrow> outcome \<times> world" where
  "main e repoSpec owner0 name0 githubToken version0 w =
     (if truthy repoSpec \<and> (truthy owner0 \<or> truthy name0) then
        (SetFailed ''When 'repo' is supplied, 'owner' and 'name' must not be provided'', w)
      else if \<not> truthy repoSpec \<and> (\<not> truthy owner0 \<or> \<not> truthy name0) then
        (SetFailed ''Both 'owner' and 'name' must be supplied when 'repo' is not provided'', w)
      else
        (let parsed =
               (if truthy repoSpec then
                  (case split2 CHR ''@'' repoSpec of
                     (repo, ver) \<Rightarrow>
                       if truthy_opt ver \<and> truthy version0 then None
                       else
                         (case split2 CHR ''/'' repo of
                            (ow, nm) \<Rightarrow>
                              Some (ow, (case nm of None \<Rightarrow> [] | Some n \<Rightarrow> n),
                                    (case ver of
                                       None \<Rightarrow> version0
                                     | Some v \<Rightarrow> if truthy v then v else version0))))
                else Some (owner0, name0, version0))
         in case parsed of
              None \<Rightarrow>
                (SetFailed
                   ''Both 'version' and 'repo' have a version specified, only one is allowed'',
                 w)
            | Some (ow, nm, vs) \<Rightarrow>
                (case checkOrInstallTool e
                        \<lparr>owner = ow, name = nm, versionSpec = Some vs, bin = None\<rparr> w of
                   (Inl (Error msg), w') \<Rightarrow> (SetFailed msg, w')
                 | (Inr it, w') \<Rightarrow>
                     (AddPath (dir it)
                        (''Successfully setup '' @ tool.name it @ '' v''
                           @ installed_tool.version it),
                      w'))))"


section \<open>The claims' vocabulary\<close>

text \<open>
  A listed release qualifies when one of its assets has a file name containing one of
  the accepted targets and, if a version was asked for, its tag without the leading
  \<^verbatim>\<open>v\<close> satisfies it.
\<close>

definition has_asset_for :: "string list \<Rightarrow> gh_release \<Rightarrow> bool" where
  "has_asset_for targets rel =
     list_ex (\<lambda>a. list_ex (\<lambda>target. str_includes (asset.name a) target) targets) (assets rel)"

definition qualifies ::
  "(string \<Rightarrow> string \<Rightarrow> bool) \<Rightarrow> string list \<Rightarrow> string option \<Rightarrow> gh_release \<Rightarrow> bool" where
  "qualifies sat targets vspec rel =
     (has_asset_for targets rel
      \<and> (case vspec of
            None \<Rightarrow> True
          | Some v \<Rightarrow> if truthy v then sat (strip_v (tag_name rel)) v else True))"

definition requests :: "string \<Rightarrow> string \<Rightarrow> nat \<Rightarrow> event list" where
  \<comment> \<open>the requests for the first \<open>k\<close> pages of a listing\<close>
  "requests ow repo k = map (ListReleases ow repo) [1..<Suc k]"


definition located_binary :: "tool \<Rightarrow> string list \<Rightarrow> string" where
  \<comment> \<open>the binary's name: \<^verbatim>\<open>bin\<close> if given, else the entry matching the name up to case, else the name\<close>
  "located_binary t entries =
     (let by_name = (case find (\<lambda>file. toLowerCase file = toLowerCase (tool.name t)) entries of
                       Some file \<Rightarrow> file
                     | None \<Rightarrow> tool.name t)
      in case bin t of
           None \<Rightarrow> by_name
         | Some b \<Rightarrow> if truthy b then b else by_name)"

definition repair_reads :: "tool \<Rightarrow> string \<Rightarrow> event list" where
  \<comment> \<open>the directory is read only when no \<^verbatim>\<open>bin\<close> was given\<close>
  "repair_reads t d = (if truthy_opt (bin t) then [] else [Readdir d])"


section \<open>A sample host\<close>

text \<open>
  Concrete data on which the statements below are exercised: a Linux x64 runner, a
  listing of mdBook releases in three pages, and a matcher that accepts a version when
  the requested specifier is a prefix of it (enough to tell 0.4.x from 0.5.x).
\<close>

definition gnu_asset :: asset where
  "gnu_asset = \<lparr>asset.name = ''mdbook-x86_64-unknown-linux-gnu.tar.gz'',
                 browser_download_url = ''https://host.test/dl/mdbook-gnu.tar.gz''\<rparr>"

definition musl_asset :: asset where
  "musl_asset = \<lparr>asset.name = ''mdbook-x86_64-unknown-linux-musl.tar.gz'',
                  browser_download_url = ''https://host.test/dl/mdbook-musl.tar.gz''\<rparr>"

definition source_asset :: asset where
  "source_asset = \<lparr>asset.name = ''mdbook-source.zip'',
                    browser_download_url = ''https://host.test/dl/mdbook-source.zip''\<rparr>"

definition listed :: "string \<Rightarrow> asset list \<Rightarrow> gh_release" where
  "listed tag as = \<lparr>tag_name = tag, assets = as\<rparr>"

definition sample_pages :: "page_result list" where
  "sample_pages =
     [Page [listed ''v0.5.0'' [gnu_asset]],
      Page [listed ''nightly'' [source_asset],
            listed ''v0.4.3'' [gnu_asset, musl_asset],
            listed ''v0.4.2'' [musl_asset]],
      Page [listed ''v0.4.1'' [gnu_asset]]]"

definition cache_path :: "string \<Rightarrow> string \<Rightarrow> string" where
  "cache_path nm ver = ''/cache/'' @ nm @ ''/'' @ ver @ ''/x64''"

definition sample_find :: "string \<Rightarrow> string \<Rightarrow> fs \<Rightarrow> error + string" where
  \<comment> \<open>the newest cached version the specifier accepts, or the empty string\<close>
  "sample_find nm spec f =
     (case find (\<lambda>ver. (spec = ''*'' \<or> prefix spec ver) \<and> nodes f (cache_path nm ver) \<noteq> None)
             [''0.5.0'', ''0.4.3'', ''0.4.2'', ''0.4.1''] of
        None \<Rightarrow> Inr []
      | Some ver \<Rightarrow> Inr (cache_path nm ver))"

definition sample_cacheDir :: "string \<Rightarrow> string \<Rightarrow> string \<Rightarrow> fs \<Rightarrow> (error + string) \<times> fs" where
  \<comment> \<open>copies the entries of the source directory into the cache\<close>
  "sample_cacheDir src nm ver f =
     (case listing f src of
        None \<Rightarrow> (Inl (Error ''sourceDir is not a directory''), f)
      | Some es \<Rightarrow>
          (Inr (cache_path nm ver),
           \<lparr>nodes = fold (\<lambda>x m. m(path_join (cache_path nm ver) x := nodes f (path_join src x))) es
                      ((nodes f)(cache_path nm ver \<mapsto> \<lparr>is_dir = True, mode = 493\<rparr>)),
            listing = (listing f)(cache_path nm ver \<mapsto> es)\<rparr>))"

definition sample_host :: "string \<Rightarrow> string \<Rightarrow> page_result list \<Rightarrow> env" where
  "sample_host a p pages =
     \<lparr>arch = a, platform = p,
      release_pages = (\<lambda>_ _. pages),
      satisfies = (\<lambda>v spec. prefix spec v),
      tc_find = sample_find,
      tc_downloadTool = (\<lambda>_ f. (Inr ''/work/artifact'', f)),
      tc_extractZip = (\<lambda>_ f. (Inr ''/work/out'', f)),
      tc_extractTar = (\<lambda>_ f. (Inr ''/work/out'', f)),
      tc_cacheDir = sample_cacheDir\<rparr>"

definition mdBook :: "string option \<Rightarrow> tool" where
  "mdBook vspec = \<lparr>owner = ''rust-lang'', name = ''mdBook'', versionSpec = vspec, bin = None\<rparr>"

definition plain_dir :: node where
  "plain_dir = \<lparr>is_dir = True, mode = 493\<rparr>"

definition plain_file :: node where
  \<comment> \<open>a file of mode 0644 (decimal 420)\<close>
  "plain_file = \<lparr>is_dir = False, mode = 420\<rparr>"

definition sample_fs :: fs where
  \<comment> \<open>an extracted archive with one top-level folder, a doubly nested one, and a flat one\<close>
  "sample_fs =
     \<lparr>nodes = map_of
        [(''/tmp'', plain_dir),
         (''/work/artifact'', plain_file),
         (''/work/out'', plain_dir),
         (''/work/out/pkg'', plain_dir),
         (''/work/out/pkg/LICENSE'', plain_file),
         (''/work/out/pkg/mdbook'', plain_file),
         (''/work/nested'', plain_dir),
         (''/work/nested/a'', plain_dir),
         (''/work/nested/a/b'', plain_dir),
         (''/work/flat'', plain_dir),
         (''/work/flat/mdbook'', plain_file)],
      listing = map_of
        [(''/tmp'', []),
         (''/work/out'', [''pkg'']),
         (''/work/out/pkg'', [''LICENSE'', ''mdbook'']),
         (''/work/nested'', [''a'']),
         (''/work/nested/a'', [''b'']),
         (''/work/nested/a/b'', []),
         (''/work/flat'', [''mdbook''])]\<rparr>"

definition staged_fs :: fs where
  \<comment> \<open>the same, after an earlier step of the job has created the staging directory\<close>
  "staged_fs =
     \<lparr>nodes = (nodes sample_fs)(staging_dir \<mapsto> plain_dir),
      listing = (listing sample_fs)(''/tmp'' \<mapsto> [''extractions-setup-crate-binaries''],
                                    staging_dir \<mapsto> [])\<rparr>"

definition start :: "fs \<Rightarrow> world" where
  "start f = \<lparr>files = f, trace = []\<rparr>"


section \<open>Properties of target resolution\<close>

lemma getTargets_x64_linux:
  "getTargets ''x64'' ''linux'' =
     Inr [''x86_64-unknown-linux-musl'', ''x86_64-unknown-linux-gnu'']"
  by (simp add: getTargets_def)

lemma getTargets_arm64_linux:
  "getTargets ''arm64'' ''linux'' =
     Inr [''aarch64-unknown-linux-musl'', ''aarch64-unknown-linux-gnu'']"
  by (simp add: getTargets_def)

lemma getTargets_x64_darwin: "getTargets ''x64'' ''darwin'' = Inr [''x86_64-apple-darwin'']"
  by (simp add: getTargets_def)

lemma getTargets_x64_win32: "getTargets ''x64'' ''win32'' = Inr [''x86_64-pc-windows-msvc'']"
  by (simp add: getTargets_def)

lemma getTargets_arm64_darwin:
  "getTargets ''arm64'' ''darwin'' = Inr [''aarch64-apple-darwin'']"
  by (simp add: getTargets_def)

lemma getTargets_unsupported:
  assumes "(a, p) \<notin> set supported_table"
  shows "getTargets a p =
           Inl (Error (''failed to determine any valid targets; arch = '' @ a
                        @ '', platform = '' @ p))"
  using assms by (simp add: getTargets_def supported_table_def Let_def)

text \<open>
  Claim C5.  For each of the five (architecture, platform) rows of the supported table
  getTargets returns a fixed non-empty list; on Linux the list has exactly two targets,
  the musl (statically linked) one before the gnu (dynamically linked) one; for every
  pair outside the table it throws an error whose message carries the architecture and
  the platform.
\<close>

theorem getTargets_supported_table:
  "((a, p) \<in> set supported_table \<longrightarrow> (\<exists>ts. getTargets a p = Inr ts \<and> ts \<noteq> []))
   \<and> ((a, ''linux'') \<in> set supported_table \<longrightarrow>
        (\<exists>t1 t2. getTargets a ''linux'' = Inr [t1, t2]
                  \<and> str_includes t1 ''-linux-musl'' \<and> str_includes t2 ''-linux-gnu''))
   \<and> getTargets ''x64'' ''linux'' =
        Inr [''x86_64-unknown-linux-musl'', ''x86_64-unknown-linux-gnu'']
   \<and> getTargets ''arm64'' ''linux'' =
        Inr [''aarch64-unknown-linux-musl'', ''aarch64-unknown-linux-gnu'']
   \<and> getTargets ''x64'' ''darwin'' = Inr [''x86_64-apple-darwin'']
   \<and> getTargets ''x64'' ''win32'' = Inr [''x86_64-pc-windows-msvc'']
   \<and> getTargets ''arm64'' ''darwin'' = Inr [''aarch64-apple-darwin'']
   \<and> ((a, p) \<notin> set supported_table \<longrightarrow>
        getTargets a p =
          Inl (Error (''failed to determine any valid targets; arch = '' @ a
                       @ '', platform = '' @ p)))"
proof -
  have nonempty: "(a, p) \<in> set supported_table \<longrightarrow> (\<exists>ts. getTargets a p = Inr ts \<and> ts \<noteq> [])"
    by (auto simp: supported_table_def getTargets_def)
  have linux: "(a, ''linux'') \<in> set supported_table \<longrightarrow>
        (\<exists>t1 t2. getTargets a ''linux'' = Inr [t1, t2]
                  \<and> str_includes t1 ''-linux-musl'' \<and> str_includes t2 ''-linux-gnu'')"
    by (auto simp: supported_table_def getTargets_def)
  have unsupported: "(a, p) \<notin> set supported_table \<longrightarrow>
        getTargets a p =
          Inl (Error (''failed to determine any valid targets; arch = '' @ a
                       @ '', platform = '' @ p))"
    using getTargets_unsupported by blast
  show ?thesis
    by (intro conjI nonempty linux unsupported getTargets_x64_linux getTargets_arm64_linux
          getTargets_x64_darwin getTargets_x64_win32 getTargets_arm64_darwin)
qed

theorem getTargets_supported_table_witness:
  "(''arm64'', ''linux'') \<in> set supported_table
   \<and> (''arm64'', ''win32'') \<notin> set supported_table
   \<and> getTargets ''arm64'' ''linux'' =
        Inr [''aarch64-unknown-linux-musl'', ''aarch64-unknown-linux-gnu'']
   \<and> str_includes ''aarch64-unknown-linux-musl'' ''-linux-musl''
   \<and> str_includes ''aarch64-unknown-linux-gnu'' ''-linux-gnu''
   \<and> getTargets ''arm64'' ''win32'' =
        Inl (Error ''failed to determine any valid targets; arch = arm64, platform = win32'')"
  using getTargets_supported_table [of "''arm64''" "''linux''"]
        getTargets_supported_table [of "''arm64''" "''win32''"]
  by (simp add: supported_table_def)


section \<open>Unfolding the sample host and the plumbing\<close>

lemmas sample_defs =
  sample_host_def sample_pages_def mdBook_def listed_def gnu_asset_def musl_asset_def
  source_asset_def start_def sample_fs_def plain_dir_def plain_file_def staged_fs_def
  staging_dir_def cache_path_def sample_find_def sample_cacheDir_def

lemmas io_defs = bind_def emit_def ret_def throw_def catch_def service_def

lemmas js_defs =
  truthy_def truthy_opt_def strip_v_def endsWith_def toLowerCase_def lower_char_def
  path_join_def basename_def dirname_def strip_trailing_def template_def


section \<open>Asset selection\<close>

lemma find_asset_None:
  "find_asset targets as = None \<longleftrightarrow>
     \<not> list_ex (\<lambda>a. list_ex (\<lambda>target. str_includes (asset.name a) target) targets) as"
  by (auto simp: find_asset_def find_None_iff list_ex_iff)

lemma find_first_split:
  "find P xs = Some x \<longleftrightarrow> (\<exists>pre post. xs = pre @ x # post \<and> P x \<and> (\<forall>b \<in> set pre. \<not> P b))"
proof (induction xs)
  case Nil
  then show ?case by simp
next
  case (Cons y ys)
  show ?case
  proof (cases "P y")
    case True
    have "(\<exists>pre post. y # ys = pre @ x # post \<and> P x \<and> (\<forall>b \<in> set pre. \<not> P b)) \<longleftrightarrow> y = x"
    proof
      assume "\<exists>pre post. y # ys = pre @ x # post \<and> P x \<and> (\<forall>b \<in> set pre. \<not> P b)"
      then obtain pre post where s: "y # ys = pre @ x # post" and n: "\<forall>b \<in> set pre. \<not> P b" by blast
      show "y = x"
      proof (cases pre)
        case Nil
        with s show ?thesis by simp
      next
        case (Cons z zs)
        with s have "z = y" by simp
        with Cons n True show ?thesis by simp
      qed
    next
      assume "y = x"
      with True have "y # ys = [] @ x # ys \<and> P x \<and> (\<forall>b \<in> set []. \<not> P b)" by simp
      then show "\<exists>pre post. y # ys = pre @ x # post \<and> P x \<and> (\<forall>b \<in> set pre. \<not> P b)" by blast
    qed
    with True show ?thesis by simp
  next
    case False
    have "(\<exists>pre post. y # ys = pre @ x # post \<and> P x \<and> (\<forall>b \<in> set pre. \<not> P b))
        \<longleftrightarrow> (\<exists>pre post. ys = pre @ x # post \<and> P x \<and> (\<forall>b \<in> set pre. \<not> P b))"
    proof
      assume "\<exists>pre post. y # ys = pre @ x # post \<and> P x \<and> (\<forall>b \<in> set pre. \<not> P b)"
      then obtain pre post where s: "y # ys = pre @ x # post" and px: "P x"
        and n: "\<forall>b \<in> set pre. \<not> P b" by blast
      show "\<exists>pre post. ys = pre @ x # post \<and> P x \<and> (\<forall>b \<in> set pre. \<not> P b)"
      proof (cases pre)
        case Nil
        with s px False show ?thesis by simp
      next
        case (Cons z zs)
        with s n px have "ys = zs @ x # post \<and> P x \<and> (\<forall>b \<in> set zs. \<not> P b)" by simp
        then show ?thesis by blast
      qed
    next
      assume "\<exists>pre post. ys = pre @ x # post \<and> P x \<and> (\<forall>b \<in> set pre. \<not> P b)"
      then obtain pre post where "ys = pre @ x # post" "P x" "\<forall>b \<in> set pre. \<not> P b" by blast
      with False have "y # ys = (y # pre) @ x # post \<and> P x \<and> (\<forall>b \<in> set (y # pre). \<not> P b)" by simp
      then show "\<exists>pre post. y # ys = pre @ x # post \<and> P x \<and> (\<forall>b \<in> set pre. \<not> P b)" by blast
    qed
    with False Cons.IH show ?thesis by simp
  qed
qed

text \<open>
  Claim C1.  As stated (the asset matching the most-preferred target wins whatever the order
  of the assets) the claim fails: the code takes the first asset, in the release's own
  order, whose file name contains any accepted target.  What holds: an asset is selected
  exactly when it matches some target and no asset before it matches any, and the order
  of the target list has no influence on the selection.
\<close>

theorem find_asset_first_in_asset_order:
  "(find_asset targets as = Some a \<longleftrightarrow>
      (\<exists>pre post. as = pre @ a # post
         \<and> list_ex (\<lambda>target. str_includes (asset.name a) target) targets
         \<and> (\<forall>b \<in> set pre. \<not> list_ex (\<lambda>target. str_includes (asset.name b) target) targets)))
   \<and> (set targets = set targets' \<longrightarrow> find_asset targets as = find_asset targets' as)"
proof -
  have "set targets = set targets' \<longrightarrow> find_asset targets as = find_asset targets' as"
    by (simp add: find_asset_def list_ex_iff)
  then show ?thesis
    unfolding find_asset_def by (simp only: find_first_split simp_thms)
qed

theorem find_asset_first_in_asset_order_witness:
  "find_asset [''x86_64-unknown-linux-musl'', ''x86_64-unknown-linux-gnu'']
     [source_asset, gnu_asset, musl_asset] = Some gnu_asset
   \<and> [source_asset, gnu_asset, musl_asset] = [source_asset] @ gnu_asset # [musl_asset]
   \<and> \<not> list_ex (\<lambda>target. str_includes (asset.name source_asset) target)
           [''x86_64-unknown-linux-musl'', ''x86_64-unknown-linux-gnu'']
   \<and> find_asset [''x86_64-unknown-linux-gnu'', ''x86_64-unknown-linux-musl'']
        [source_asset, gnu_asset, musl_asset] = Some gnu_asset"
  using find_asset_first_in_asset_order
          [of "[''x86_64-unknown-linux-musl'', ''x86_64-unknown-linux-gnu'']"
              "[source_asset, gnu_asset, musl_asset]" gnu_asset
              "[''x86_64-unknown-linux-gnu'', ''x86_64-unknown-linux-musl'']"]
  by (simp add: find_asset_def gnu_asset_def musl_asset_def source_asset_def)

text \<open>
  On the Linux x64 target list (musl first), a release listing its gnu asset before its
  musl asset yields the gnu asset, although the musl asset matches the first target and
  the gnu asset only the second.
\<close>

theorem asset_priority_counterexample:
  "getTargets ''x64'' ''linux'' = Inr [''x86_64-unknown-linux-musl'', ''x86_64-unknown-linux-gnu'']
   \<and> str_includes (asset.name musl_asset) ''x86_64-unknown-linux-musl''
   \<and> \<not> str_includes (asset.name gnu_asset) ''x86_64-unknown-linux-musl''
   \<and> str_includes (asset.name gnu_asset) ''x86_64-unknown-linux-gnu''
   \<and> find_asset [''x86_64-unknown-linux-musl'', ''x86_64-unknown-linux-gnu'']
        [gnu_asset, musl_asset] = Some gnu_asset
   \<and> to_release [''x86_64-unknown-linux-musl'', ''x86_64-unknown-linux-gnu'']
        (listed ''v0.4.3'' [gnu_asset, musl_asset])
       = Some \<lparr>release.version = ''0.4.3'',
               downloadUrl = ''https://host.test/dl/mdbook-gnu.tar.gz''\<rparr>"
  by (simp add: getTargets_def to_release_def find_asset_def listed_def gnu_asset_def
        musl_asset_def strip_v_def)


section \<open>Release lookup\<close>

lemma to_release_Some_iff: "(to_release targets rel \<noteq> None) = has_asset_for targets rel"
  using find_asset_None [of targets "assets rel"]
  by (cases "find_asset targets (assets rel)") (auto simp: to_release_def has_asset_for_def)

lemma to_release_version:
  "to_release targets rel = Some r \<Longrightarrow> release.version r = strip_v (tag_name rel)"
  by (auto simp: to_release_def split: option.splits)

lemma keeps_iff_qualifies:
  "(to_release targets rel \<noteq> None \<and> version_ok sat vspec (to_release targets rel))
     = qualifies sat targets vspec rel"
proof (cases "to_release targets rel")
  case None
  then show ?thesis using to_release_Some_iff [of targets rel] by (simp add: qualifies_def)
next
  case (Some r)
  then show ?thesis
    using to_release_Some_iff [of targets rel] to_release_version [OF Some]
    by (auto simp: qualifies_def version_ok_def split: option.splits)
qed

lemma page_releases_filter:
  "fst (page_releases sat targets vspec data)
     = map (to_release targets) (filter (qualifies sat targets vspec) data)"
proof -
  have "fst (page_releases sat targets vspec data)
      = filter (\<lambda>x. x \<noteq> None \<and> version_ok sat vspec x) (map (to_release targets) data)"
    by (simp add: page_releases_def Let_def)
  also have "\<dots> = map (to_release targets)
      (filter (\<lambda>rel. to_release targets rel \<noteq> None \<and> version_ok sat vspec (to_release targets rel)) data)"
    by (simp add: filter_map comp_def)
  also have "\<dots> = map (to_release targets) (filter (qualifies sat targets vspec) data)"
    by (simp only: keeps_iff_qualifies)
  finally show ?thesis .
qed

lemma page_releases_done:
  "snd (page_releases sat targets vspec data) = (fst (page_releases sat targets vspec data) \<noteq> [])"
  by (simp add: page_releases_def Let_def)

lemma page_releases_none:
  assumes "\<forall>rel \<in> set data. \<not> qualifies sat targets vspec rel"
  shows "page_releases sat targets vspec data = ([], False)"
proof -
  have "filter (qualifies sat targets vspec) data = []" using assms by (simp add: filter_empty_conv)
  then have "fst (page_releases sat targets vspec data) = []" by (simp add: page_releases_filter)
  then show ?thesis using page_releases_done [of sat targets vspec data] by (simp add: prod_eq_iff)
qed

lemma page_releases_first:
  assumes "\<forall>rel \<in> set rs1. \<not> qualifies sat targets vspec rel"
    and "qualifies sat targets vspec rel"
  shows "\<exists>rest. page_releases sat targets vspec (rs1 @ rel # rs2) = (to_release targets rel # rest, True)"
proof -
  have "filter (qualifies sat targets vspec) rs1 = []" using assms(1) by (simp add: filter_empty_conv)
  then have "fst (page_releases sat targets vspec (rs1 @ rel # rs2)) = to_release targets rel # map (to_release targets) (filter (qualifies sat targets vspec) rs2)"
    using assms(2) by (simp add: page_releases_filter)
  then show ?thesis using page_releases_done [of sat targets vspec "rs1 @ rel # rs2"] by (simp add: prod_eq_iff)
qed

lemma gather_skips:
  assumes "\<forall>p \<in> set ps. mapFn p = ([], False)"
  shows "gather mapFn ow repo (map Page ps @ rest) n results w
           = gather mapFn ow repo rest (n + length ps) results
               (w\<lparr>trace := trace w @ map (ListReleases ow repo) [n..<n + length ps]\<rparr>)"
  using assms
proof (induction ps arbitrary: n w)
  case Nil
  then show ?case by simp
next
  case (Cons p ps)
  have step: "gather mapFn ow repo (map Page (p # ps) @ rest) n results w
      = gather mapFn ow repo (map Page ps @ rest) (Suc n) results (w\<lparr>trace := trace w @ [ListReleases ow repo n]\<rparr>)"
    using Cons.prems by (simp add: bind_def emit_def)
  have "[n..<n + length (p # ps)] = n # [Suc n..<Suc n + length ps]"
    by (subst upt_rec) simp
  then show ?case using Cons.IH [of "Suc n" "w\<lparr>trace := trace w @ [ListReleases ow repo n]\<rparr>"] Cons.prems step
    by simp
qed

lemma gather_hit:
  assumes "mapFn p = (out, True)"
  shows "gather mapFn ow repo (Page p # older) n results w
           = (Inr (results @ out), w\<lparr>trace := trace w @ [ListReleases ow repo n]\<rparr>)"
  using assms by (simp add: bind_def emit_def ret_def)

lemma paginate_stops:
  assumes "\<forall>p \<in> set newer. mapFn p = ([], False)" and "mapFn p = (out, True)"
  shows "paginate mapFn ow repo (map Page newer @ Page p # older) w
           = (Inr out, w\<lparr>trace := trace w @ requests ow repo (Suc (length newer))\<rparr>)"
proof -
  have "[1..<Suc (Suc (length newer))] = [1..<Suc (length newer)] @ [Suc (length newer)]"
    by simp
  then show ?thesis
    using gather_skips [of newer mapFn ow repo "Page p # older" 1 "[]" w]
      gather_hit [of mapFn p out ow repo older "Suc (length newer)" "[]"] assms
    by (simp add: paginate_def requests_def)
qed

lemma paginate_exhausted:
  assumes "\<forall>p \<in> set ps. mapFn p = ([], False)"
  shows "paginate mapFn ow repo (map Page ps) w
           = (Inr [], w\<lparr>trace := trace w @ requests ow repo (length ps)\<rparr>)"
  using gather_skips [of ps mapFn ow repo "[]" 1 "[]" w] assms
  by (simp add: paginate_def requests_def ret_def)

text \<open>
  Claim C2.  With the pages listed newest first, let a page hold the first qualifying release
  \<open>rel\<close>: no release of a newer page qualifies, and none before \<open>rel\<close> in its own page.
  Then getRelease returns the release built from \<open>rel\<close> (its tag without the leading
  \<^verbatim>\<open>v\<close>, the URL of its first matching asset), whatever the older pages hold, and it
  has requested exactly the pages up to the one holding \<open>rel\<close>: no older page.
\<close>

theorem getRelease_newest_qualifying:
  assumes targets: "getTargets (arch e) (platform e) = Inr targets"
    and pages: "release_pages e (owner t) (tool.name t)
                  = map Page newer @ Page (rs1 @ rel # rs2) # older"
    and newer: "\<forall>p \<in> set newer. \<forall>r \<in> set p. \<not> qualifies (satisfies e) targets (versionSpec t) r"
    and rs1: "\<forall>r \<in> set rs1. \<not> qualifies (satisfies e) targets (versionSpec t) r"
    and rel: "qualifies (satisfies e) targets (versionSpec t) rel"
  shows "\<exists>a. find_asset targets (assets rel) = Some a
           \<and> getRelease e t w
               = (Inr \<lparr>release.version = strip_v (tag_name rel),
                       downloadUrl = browser_download_url a\<rparr>,
                  w\<lparr>trace := trace w @ requests (owner t) (tool.name t) (Suc (length newer))\<rparr>)"
proof -
  let ?f = "page_releases (satisfies e) targets (versionSpec t)"
  have skip: "\<forall>p \<in> set newer. ?f p = ([], False)"
    using newer by (simp add: page_releases_none)
  obtain rest where hit: "?f (rs1 @ rel # rs2) = (to_release targets rel # rest, True)"
    using page_releases_first [OF rs1 rel] by blast
  have "has_asset_for targets rel" using rel by (simp add: qualifies_def)
  then obtain a where a: "find_asset targets (assets rel) = Some a"
    using find_asset_None [of targets "assets rel"] by (auto simp: has_asset_for_def)
  then have c: "to_release targets rel
      = Some \<lparr>release.version = strip_v (tag_name rel), downloadUrl = browser_download_url a\<rparr>"
    by (simp add: to_release_def)
  have "getRelease e t w
      = (Inr \<lparr>release.version = strip_v (tag_name rel), downloadUrl = browser_download_url a\<rparr>,
         w\<lparr>trace := trace w @ requests (owner t) (tool.name t) (Suc (length newer))\<rparr>)"
    using paginate_stops [OF skip hit, of "owner t" "tool.name t" older w]
    by (simp add: getRelease_def targets pages bind_def ret_def c)
  with a show ?thesis by blast
qed

theorem getRelease_newest_qualifying_witness:
  "\<not> qualifies (\<lambda>v spec. prefix spec v) [''x86_64-unknown-linux-musl'', ''x86_64-unknown-linux-gnu'']
       (Some ''0.4'') (listed ''v0.5.0'' [gnu_asset])
   \<and> \<not> qualifies (\<lambda>v spec. prefix spec v) [''x86_64-unknown-linux-musl'', ''x86_64-unknown-linux-gnu'']
       (Some ''0.4'') (listed ''nightly'' [source_asset])
   \<and> qualifies (\<lambda>v spec. prefix spec v) [''x86_64-unknown-linux-musl'', ''x86_64-unknown-linux-gnu'']
       (Some ''0.4'') (listed ''v0.4.3'' [gnu_asset, musl_asset])
   \<and> qualifies (\<lambda>v spec. prefix spec v) [''x86_64-unknown-linux-musl'', ''x86_64-unknown-linux-gnu'']
       (Some ''0.4'') (listed ''v0.4.1'' [gnu_asset])
   \<and> getRelease (sample_host ''x64'' ''linux'' sample_pages) (mdBook (Some ''0.4'')) (start sample_fs)
       = (Inr \<lparr>release.version = ''0.4.3'',
                downloadUrl = ''https://host.test/dl/mdbook-gnu.tar.gz''\<rparr>,
          \<lparr>files = sample_fs,
           trace = [ListReleases ''rust-lang'' ''mdBook'' 1, ListReleases ''rust-lang'' ''mdBook'' 2]\<rparr>)"
  using getRelease_newest_qualifying
          [of "sample_host ''x64'' ''linux'' sample_pages"
              "[''x86_64-unknown-linux-musl'', ''x86_64-unknown-linux-gnu'']"
              "mdBook (Some ''0.4'')"
              "[[listed ''v0.5.0'' [gnu_asset]]]"
              "[listed ''nightly'' [source_asset]]"
              "listed ''v0.4.3'' [gnu_asset, musl_asset]"
              "[listed ''v0.4.2'' [musl_asset]]"
              "[Page [listed ''v0.4.1'' [gnu_asset]]]"
              "start sample_fs"]
  by (simp add: getTargets_def sample_host_def sample_pages_def mdBook_def start_def
        qualifies_def has_asset_for_def find_asset_def listed_def gnu_asset_def musl_asset_def
        source_asset_def truthy_def strip_v_def requests_def)

text \<open>
  Claim C8.  If every page has been served and no release of any page qualifies, getRelease
  throws the error whose message names the tool and the version specifier, after
  requesting every page.
\<close>

theorem getRelease_no_release:
  assumes targets: "getTargets (arch e) (platform e) = Inr targets"
    and pages: "release_pages e (owner t) (tool.name t) = map Page ps"
    and none: "\<forall>p \<in> set ps. \<forall>r \<in> set p. \<not> qualifies (satisfies e) targets (versionSpec t) r"
  shows "getRelease e t w
           = (Inl (Error (''no release for '' @ tool.name t @ '' matching version specifier ''
                          @ template (versionSpec t))),
              w\<lparr>trace := trace w @ requests (owner t) (tool.name t) (length ps)\<rparr>)"
proof -
  let ?f = "page_releases (satisfies e) targets (versionSpec t)"
  have skip: "\<forall>p \<in> set ps. ?f p = ([], False)"
    using none by (simp add: page_releases_none)
  show ?thesis
    using paginate_exhausted [OF skip, of "owner t" "tool.name t" w]
    by (simp add: getRelease_def targets pages bind_def throw_def)
qed

theorem getRelease_no_release_witness:
  "\<not> qualifies (\<lambda>v spec. prefix spec v) [''aarch64-apple-darwin'']
       (Some ''0.4'') (listed ''v0.5.0'' [gnu_asset])
   \<and> getRelease (sample_host ''arm64'' ''darwin'' [Page [listed ''v0.5.0'' [gnu_asset]], Page []])
        (mdBook (Some ''0.4'')) (start sample_fs)
       = (Inl (Error ''no release for mdBook matching version specifier 0.4''),
          \<lparr>files = sample_fs,
           trace = [ListReleases ''rust-lang'' ''mdBook'' 1, ListReleases ''rust-lang'' ''mdBook'' 2]\<rparr>)"
  using getRelease_no_release
          [of "sample_host ''arm64'' ''darwin'' [Page [listed ''v0.5.0'' [gnu_asset]], Page []]"
              "[''aarch64-apple-darwin'']"
              "mdBook (Some ''0.4'')"
              "[[listed ''v0.5.0'' [gnu_asset]], []]"
              "start sample_fs"]
  by (simp add: getTargets_def sample_host_def mdBook_def start_def
        qualifies_def has_asset_for_def listed_def gnu_asset_def
        truthy_def strip_v_def requests_def template_def)

lemma version_ok_no_spec: "\<not> truthy_opt vspec \<Longrightarrow> version_ok sat vspec r"
  by (simp add: version_ok_def truthy_opt_def split: option.splits)

lemma page_releases_no_spec:
  assumes "\<not> truthy_opt vspec"
  shows "page_releases sat targets vspec data
           = (filter (\<lambda>r. r \<noteq> None) (map (to_release targets) data),
              filter (\<lambda>r. r \<noteq> None) (map (to_release targets) data) \<noteq> [])"
  using assms by (simp add: page_releases_def version_ok_no_spec Let_def)

text \<open>
  Claim C10.  Without a version specifier (absent or empty) a release qualifies exactly when
  it has an asset for an accepted target, a page keeps every release that has one, and
  the result of getRelease does not depend on the version matcher at all: a tag that is
  no semantic version is accepted like any other.
\<close>

theorem no_version_no_semver:
  assumes "\<not> truthy_opt (versionSpec t)"
  shows "(\<forall>targets rel. qualifies (satisfies e) targets (versionSpec t) rel = has_asset_for targets rel)
       \<and> (\<forall>targets data. fst (page_releases (satisfies e) targets (versionSpec t) data)
              = filter (\<lambda>r. r \<noteq> None) (map (to_release targets) data))
       \<and> getRelease (e\<lparr>satisfies := sat'\<rparr>) t = getRelease e t"
proof -
  have q: "\<forall>targets rel. qualifies (satisfies e) targets (versionSpec t) rel = has_asset_for targets rel"
    using assms by (auto simp: qualifies_def truthy_opt_def split: option.splits)
  have p: "\<forall>targets data. fst (page_releases (satisfies e) targets (versionSpec t) data)
              = filter (\<lambda>r. r \<noteq> None) (map (to_release targets) data)"
    using assms by (simp add: page_releases_no_spec)
  have "page_releases sat' targets (versionSpec t) = page_releases (satisfies e) targets (versionSpec t)" for targets
    using assms by (simp add: page_releases_no_spec fun_eq_iff)
  then have g: "getRelease (e\<lparr>satisfies := sat'\<rparr>) t = getRelease e t"
    by (cases "getTargets (arch e) (platform e)") (simp_all add: getRelease_def)
  from q p g show ?thesis by blast
qed

theorem no_version_no_semver_witness:
  "\<not> truthy_opt (versionSpec (mdBook None))
   \<and> qualifies (\<lambda>_ _. False) [''x86_64-unknown-linux-musl'', ''x86_64-unknown-linux-gnu''] None
       (listed ''nightly'' [gnu_asset])
   \<and> fst (page_releases (\<lambda>_ _. False) [''x86_64-unknown-linux-musl'', ''x86_64-unknown-linux-gnu'']
          None [listed ''nightly'' [gnu_asset]])
       = [Some \<lparr>release.version = ''nightly'',
                downloadUrl = ''https://host.test/dl/mdbook-gnu.tar.gz''\<rparr>]
   \<and> getRelease (sample_host ''x64'' ''linux'' sample_pages\<lparr>satisfies := \<lambda>_ _. False\<rparr>) (mdBook None)
       = getRelease (sample_host ''x64'' ''linux'' sample_pages) (mdBook None)"
proof -
  have n: "\<not> truthy_opt (versionSpec (mdBook None))"
    by (simp add: mdBook_def truthy_opt_def)
  have h: "has_asset_for [''x86_64-unknown-linux-musl'', ''x86_64-unknown-linux-gnu'']
             (listed ''nightly'' [gnu_asset])"
    by (simp add: has_asset_for_def listed_def gnu_asset_def)
  have v: "versionSpec (mdBook None) = None" by (simp add: mdBook_def)
  have e1: "satisfies (sample_host ''x64'' ''linux'' sample_pages\<lparr>satisfies := \<lambda>_ _. False\<rparr>) = (\<lambda>_ _. False)"
    by simp
  have r: "filter (\<lambda>r. r \<noteq> None)
             (map (to_release [''x86_64-unknown-linux-musl'', ''x86_64-unknown-linux-gnu''])
                [listed ''nightly'' [gnu_asset]])
           = [Some \<lparr>release.version = ''nightly'',
                    downloadUrl = ''https://host.test/dl/mdbook-gnu.tar.gz''\<rparr>]"
    by (simp add: to_release_def find_asset_def listed_def gnu_asset_def strip_v_def)
  show ?thesis
    using no_version_no_semver
            [OF n, of "sample_host ''x64'' ''linux'' sample_pages\<lparr>satisfies := \<lambda>_ _. False\<rparr>"
               "\<lambda>v spec. prefix spec v"]
      n h r
    by (simp add: v sample_host_def)
qed


section \<open>Cache hit\<close>

lemma checkOrInstallTool_hit:
  assumes "tc_find e (tool.name t) (find_spec t) (files w) = Inr d" and "truthy d"
  shows "checkOrInstallTool e t w
           = (Inr (tool.extend t \<lparr>installed_tool.version = basename (dirname d), dir = d\<rparr>),
              w\<lparr>trace := trace w @ [CacheFind (tool.name t) (find_spec t)]\<rparr>)"
  using assms by (simp add: checkOrInstallTool_def bind_def service_def ret_def)

lemma checkOrInstallTool_shape:
  assumes "checkOrInstallTool e t w = (Inr r, w')"
  shows "r = tool.extend t \<lparr>installed_tool.version = basename (dirname (dir r)), dir = dir r\<rparr>"
  using assms
  by (auto simp: checkOrInstallTool_def bind_def ret_def tool.extend_def
           split: prod.splits sum.splits if_splits)

lemma sample_install:
  "checkOrInstallTool (sample_host ''x64'' ''linux'' sample_pages) (mdBook (Some ''0.4'')) (start sample_fs)
     = (Inr \<lparr>owner = ''rust-lang'', name = ''mdBook'', versionSpec = Some ''0.4'', bin = None,
              installed_tool.version = ''0.4.3'', dir = ''/cache/mdBook/0.4.3/x64''\<rparr>,
        \<lparr>files =
           \<lparr>nodes = (nodes sample_fs)
              (''/cache/mdBook/0.4.3/x64'' \<mapsto> plain_dir,
               ''/cache/mdBook/0.4.3/x64/LICENSE'' \<mapsto> plain_file,
               ''/cache/mdBook/0.4.3/x64/mdbook'' \<mapsto> \<lparr>is_dir = False, mode = 493\<rparr>),
            listing = (listing sample_fs)(''/cache/mdBook/0.4.3/x64'' \<mapsto> [''LICENSE'', ''mdbook''])\<rparr>,
         trace =
           [CacheFind ''mdBook'' ''0.4'',
            ListReleases ''rust-lang'' ''mdBook'' 1,
            ListReleases ''rust-lang'' ''mdBook'' 2,
            DownloadTool ''https://host.test/dl/mdbook-gnu.tar.gz'',
            ExtractTar ''/work/artifact'',
            Readdir ''/work/out'',
            Lstat ''/work/out/pkg'',
            CacheDir ''/work/out/pkg'' ''mdBook'' ''0.4.3'',
            Readdir ''/cache/mdBook/0.4.3/x64'',
            Access ''/cache/mdBook/0.4.3/x64/mdbook'',
            Chmod ''/cache/mdBook/0.4.3/x64/mdbook'' 493]\<rparr>)"
  by (simp add: checkOrInstallTool_def install_def getRelease_def getTargets_def paginate_def
        page_releases_def to_release_def find_asset_def version_ok_def find_spec_def
        extract_artifact_def cache_extracted_def single_directory_def fs_readdir_def
        fs_lstat_def handleBadBinaryPermissions_def findBin_def fs_access_X_OK_def
        fs_chmod_def may_execute_def tool.extend_def Let_def sample_defs io_defs js_defs)

text \<open>
  Claim C3.  Let a first call have returned an installed tool, and let the cache be warm for
  the second: the lookup for the same name and specifier finds the directory the first
  call returned.  Then the second call returns the same installed tool, leaves the file
  system as it was, and its only call is the cache lookup: no request, no download, no
  extraction, no change of a file.
\<close>

theorem warm_cache_second_call:
  assumes first: "checkOrInstallTool e t w = (Inr r, w1)"
    and warm: "tc_find e (tool.name t) (find_spec t) (files w1) = Inr (dir r)" "truthy (dir r)"
  shows "checkOrInstallTool e t w1
           = (Inr r, w1\<lparr>trace := trace w1 @ [CacheFind (tool.name t) (find_spec t)]\<rparr>)"
  using checkOrInstallTool_hit [OF warm] checkOrInstallTool_shape [OF first] by simp

theorem warm_cache_second_call_witness:
  "sample_find ''mdBook'' ''0.4'' sample_fs = Inr []
   \<and> fst (checkOrInstallTool (sample_host ''x64'' ''linux'' sample_pages) (mdBook (Some ''0.4''))
         (start sample_fs))
     = Inr \<lparr>owner = ''rust-lang'', name = ''mdBook'', versionSpec = Some ''0.4'', bin = None,
             installed_tool.version = ''0.4.3'', dir = ''/cache/mdBook/0.4.3/x64''\<rparr>
   \<and> sample_find ''mdBook'' ''0.4''
        (files (snd (checkOrInstallTool (sample_host ''x64'' ''linux'' sample_pages)
                      (mdBook (Some ''0.4'')) (start sample_fs))))
       = Inr ''/cache/mdBook/0.4.3/x64''
   \<and> checkOrInstallTool (sample_host ''x64'' ''linux'' sample_pages) (mdBook (Some ''0.4''))
        (snd (checkOrInstallTool (sample_host ''x64'' ''linux'' sample_pages) (mdBook (Some ''0.4''))
               (start sample_fs)))
       = (Inr \<lparr>owner = ''rust-lang'', name = ''mdBook'', versionSpec = Some ''0.4'', bin = None,
                installed_tool.version = ''0.4.3'', dir = ''/cache/mdBook/0.4.3/x64''\<rparr>,
          (snd (checkOrInstallTool (sample_host ''x64'' ''linux'' sample_pages) (mdBook (Some ''0.4''))
                 (start sample_fs)))
          \<lparr>trace := trace (snd (checkOrInstallTool (sample_host ''x64'' ''linux'' sample_pages)
                                  (mdBook (Some ''0.4'')) (start sample_fs)))
                      @ [CacheFind ''mdBook'' ''0.4'']\<rparr>)"
proof -
  let ?e = "sample_host ''x64'' ''linux'' sample_pages"
  let ?t = "mdBook (Some ''0.4'')"
  let ?r = "\<lparr>owner = ''rust-lang'', name = ''mdBook'', versionSpec = Some ''0.4'', bin = None,
             installed_tool.version = ''0.4.3'', dir = ''/cache/mdBook/0.4.3/x64''\<rparr>"
  obtain w1 where first: "checkOrInstallTool ?e ?t (start sample_fs) = (Inr ?r, w1)"
    and fs1: "nodes (files w1) ''/cache/mdBook/0.4.3/x64'' = Some plain_dir"
      "nodes (files w1) ''/cache/mdBook/0.5.0/x64'' = None"
    using sample_install by (simp add: sample_fs_def)
  have cold: "sample_find ''mdBook'' ''0.4'' sample_fs = Inr []"
    by (simp add: sample_find_def cache_path_def sample_fs_def)
  have spec: "find_spec ?t = ''0.4''" "tool.name ?t = ''mdBook''"
    by (simp_all add: find_spec_def mdBook_def truthy_def)
  have found: "sample_find ''mdBook'' ''0.4'' (files w1) = Inr ''/cache/mdBook/0.4.3/x64''"
    using fs1 by (simp add: sample_find_def cache_path_def)
  have warm: "tc_find ?e (tool.name ?t) (find_spec ?t) (files w1) = Inr (dir ?r)"
    using found by (simp add: spec sample_host_def)
  have hit: "truthy (dir ?r)" by (simp add: truthy_def)
  show ?thesis
    using warm_cache_second_call [OF first warm hit] first cold found by (simp add: spec)
qed


section \<open>Staging a bare executable\<close>

lemma mkdirs_existing:
  assumes "\<forall>p \<in> set ps. \<exists>n. nodes f p = Some n \<and> is_dir n"
  shows "mkdirs f ps first = (Inr first, f)"
  using assms by (induction ps) auto

lemma stage_binary_existing:
  assumes "\<forall>p \<in> set (path_prefixes [] staging_dir). \<exists>n. nodes (files w) p = Some n \<and> is_dir n"
  shows "stage_binary nm artifact w
           = (Inl (Error ''Failed to create temporary directory for binary extraction''),
              w\<lparr>trace := trace w @ [Mkdir staging_dir]\<rparr>)"
proof -
  have "\<lparr>files = files w, trace = trace w @ [Mkdir staging_dir]\<rparr> = w\<lparr>trace := trace w @ [Mkdir staging_dir]\<rparr>"
    by simp
  then show ?thesis
    using mkdirs_existing [OF assms, of None]
    by (simp add: stage_binary_def fs_mkdir_recursive_def service_def bind_def throw_def)
qed

lemma staging_succeeds_on_first_use:
  "fst (extract_artifact (sample_host ''x64'' ''linux'' sample_pages) ''mdBook''
        ''https://host.test/dl/mdbook-x86_64-unknown-linux-musl'' ''/work/artifact'' (start sample_fs))
     = Inr ''/tmp/extractions-setup-crate-binaries''
   \<and> nodes (files (snd (extract_artifact (sample_host ''x64'' ''linux'' sample_pages) ''mdBook''
        ''https://host.test/dl/mdbook-x86_64-unknown-linux-musl'' ''/work/artifact'' (start sample_fs))))
        ''/tmp/extractions-setup-crate-binaries/mdBook'' = Some plain_file"
  by (simp add: extract_artifact_def stage_binary_def fs_mkdir_recursive_def fs_rename_detached_def
        move_node_def create_dir_def add_entry_def sample_defs io_defs js_defs Let_def)

text \<open>
  Claim C4.  The claim asks that staging succeeds whether or not the staging directory
  exists.  The recursive mkdir fulfils with \<^verbatim>\<open>undefined\<close> when the directory is already
  there, and the code takes that for a failure: on a runner where the directory exists, a
  download whose URL has none of the archive suffixes ends in the error "Failed to create
  temporary directory for binary extraction", with nothing moved.
\<close>

theorem staging_fails_when_directory_exists:
  "\<not> endsWith ''https://host.test/dl/mdbook-x86_64-unknown-linux-musl'' ''.zip''
   \<and> \<not> endsWith ''https://host.test/dl/mdbook-x86_64-unknown-linux-musl'' ''.tar.gz''
   \<and> \<not> endsWith ''https://host.test/dl/mdbook-x86_64-unknown-linux-musl'' ''.tgz''
   \<and> nodes staged_fs ''/tmp/extractions-setup-crate-binaries'' = Some \<lparr>is_dir = True, mode = 493\<rparr>
   \<and> extract_artifact (sample_host ''x64'' ''linux'' sample_pages) ''mdBook''
        ''https://host.test/dl/mdbook-x86_64-unknown-linux-musl'' ''/work/artifact'' (start staged_fs)
       = (Inl (Error ''Failed to create temporary directory for binary extraction''),
          \<lparr>files = staged_fs, trace = [Mkdir ''/tmp/extractions-setup-crate-binaries'']\<rparr>)"
proof -
  have pre: "path_prefixes [] staging_dir = [''/tmp'', ''/tmp/extractions-setup-crate-binaries'']"
    by (simp add: staging_dir_def)
  have "\<forall>p \<in> set (path_prefixes [] staging_dir).
          \<exists>n. nodes (files (start staged_fs)) p = Some n \<and> is_dir n"
    by (simp add: pre start_def staged_fs_def sample_fs_def staging_dir_def plain_dir_def)
  from stage_binary_existing [OF this, of "''mdBook''" "''/work/artifact''"]
  show ?thesis
    by (simp add: extract_artifact_def endsWith_def start_def staging_dir_def)
      (simp add: staged_fs_def sample_fs_def staging_dir_def plain_dir_def)
qed


section \<open>Single top-level directory\<close>

lemma single_directory_one:
  assumes "listing (files w) d = Some [f]" and "nodes (files w) (path_join d f) = Some n"
  shows "single_directory d w
           = (Inr (if is_dir n then path_join d f else d),
              w\<lparr>trace := trace w @ [Readdir d, Lstat (path_join d f)]\<rparr>)"
  using assms
  by (simp add: single_directory_def fs_readdir_def fs_lstat_def bind_def emit_def ret_def Let_def)

lemma single_directory_other:
  assumes "listing (files w) d = Some es" and "length es \<noteq> 1"
  shows "single_directory d w = (Inr d, w\<lparr>trace := trace w @ [Readdir d]\<rparr>)"
proof (cases es)
  case Nil
  with assms show ?thesis
    by (simp add: single_directory_def fs_readdir_def bind_def emit_def ret_def)
next
  case (Cons x xs)
  with assms obtain y ys where "xs = y # ys" by (cases xs) auto
  with Cons assms show ?thesis
    by (simp add: single_directory_def fs_readdir_def bind_def emit_def ret_def)
qed

lemma cache_extracted_after:
  assumes "single_directory d w = (Inr x, w')"
  shows "cache_extracted e nm ver d w = service (CacheDir x nm ver) (tc_cacheDir e x nm ver) w'"
  using assms by (simp add: cache_extracted_def bind_def)

text \<open>
  Claim C6.  When the extraction directory lists exactly one entry and that entry is a
  directory, the directory handed to \<^verbatim>\<open>tc.cacheDir\<close> is that entry; when the single entry
  is no directory, or there are no or several entries, it is the extraction directory
  itself.  The step looks one level down only: what the inner directory contains plays
  no part.
\<close>

theorem single_directory_descent:
  assumes "listing (files w) d = Some es"
  shows "(\<forall>f n. es = [f] \<and> nodes (files w) (path_join d f) = Some n \<and> is_dir n \<longrightarrow>
            single_directory d w
              = (Inr (path_join d f), w\<lparr>trace := trace w @ [Readdir d, Lstat (path_join d f)]\<rparr>)
            \<and> cache_extracted e nm ver d w
                = service (CacheDir (path_join d f) nm ver) (tc_cacheDir e (path_join d f) nm ver)
                    (w\<lparr>trace := trace w @ [Readdir d, Lstat (path_join d f)]\<rparr>))
       \<and> (\<forall>f n. es = [f] \<and> nodes (files w) (path_join d f) = Some n \<and> \<not> is_dir n \<longrightarrow>
            single_directory d w
              = (Inr d, w\<lparr>trace := trace w @ [Readdir d, Lstat (path_join d f)]\<rparr>)
            \<and> cache_extracted e nm ver d w
                = service (CacheDir d nm ver) (tc_cacheDir e d nm ver)
                    (w\<lparr>trace := trace w @ [Readdir d, Lstat (path_join d f)]\<rparr>))
       \<and> (length es \<noteq> 1 \<longrightarrow>
            single_directory d w = (Inr d, w\<lparr>trace := trace w @ [Readdir d]\<rparr>)
            \<and> cache_extracted e nm ver d w
                = service (CacheDir d nm ver) (tc_cacheDir e d nm ver)
                    (w\<lparr>trace := trace w @ [Readdir d]\<rparr>))"
proof (intro conjI allI impI)
  fix f n
  assume h: "es = [f] \<and> nodes (files w) (path_join d f) = Some n \<and> is_dir n"
  with assms have s: "single_directory d w
      = (Inr (path_join d f), w\<lparr>trace := trace w @ [Readdir d, Lstat (path_join d f)]\<rparr>)"
    using single_directory_one [of w d f n] by simp
  then show "single_directory d w
      = (Inr (path_join d f), w\<lparr>trace := trace w @ [Readdir d, Lstat (path_join d f)]\<rparr>)" .
  from s show "cache_extracted e nm ver d w
      = service (CacheDir (path_join d f) nm ver) (tc_cacheDir e (path_join d f) nm ver)
          (w\<lparr>trace := trace w @ [Readdir d, Lstat (path_join d f)]\<rparr>)"
    by (rule cache_extracted_after)
next
  fix f n
  assume h: "es = [f] \<and> nodes (files w) (path_join d f) = Some n \<and> \<not> is_dir n"
  with assms have s: "single_directory d w
      = (Inr d, w\<lparr>trace := trace w @ [Readdir d, Lstat (path_join d f)]\<rparr>)"
    using single_directory_one [of w d f n] by simp
  then show "single_directory d w
      = (Inr d, w\<lparr>trace := trace w @ [Readdir d, Lstat (path_join d f)]\<rparr>)" .
  from s show "cache_extracted e nm ver d w
      = service (CacheDir d nm ver) (tc_cacheDir e d nm ver)
          (w\<lparr>trace := trace w @ [Readdir d, Lstat (path_join d f)]\<rparr>)"
    by (rule cache_extracted_after)
next
  assume "length es \<noteq> 1"
  with assms have s: "single_directory d w = (Inr d, w\<lparr>trace := trace w @ [Readdir d]\<rparr>)"
    by (rule single_directory_other)
  then show "single_directory d w = (Inr d, w\<lparr>trace := trace w @ [Readdir d]\<rparr>)" .
  from s show "cache_extracted e nm ver d w
      = service (CacheDir d nm ver) (tc_cacheDir e d nm ver) (w\<lparr>trace := trace w @ [Readdir d]\<rparr>)"
    by (rule cache_extracted_after)
qed

theorem single_directory_descent_witness:
  "listing sample_fs ''/work/nested'' = Some [''a'']
   \<and> listing sample_fs ''/work/nested/a'' = Some [''b'']
   \<and> cache_extracted (sample_host ''x64'' ''linux'' sample_pages) ''mdBook'' ''0.4.3'' ''/work/nested''
        (start sample_fs)
       = service (CacheDir ''/work/nested/a'' ''mdBook'' ''0.4.3'')
           (sample_cacheDir ''/work/nested/a'' ''mdBook'' ''0.4.3'')
           \<lparr>files = sample_fs, trace = [Readdir ''/work/nested'', Lstat ''/work/nested/a'']\<rparr>
   \<and> single_directory ''/work/flat'' (start sample_fs)
       = (Inr ''/work/flat'',
          \<lparr>files = sample_fs, trace = [Readdir ''/work/flat'', Lstat ''/work/flat/mdbook'']\<rparr>)
   \<and> single_directory ''/work/out/pkg'' (start sample_fs)
       = (Inr ''/work/out/pkg'', \<lparr>files = sample_fs, trace = [Readdir ''/work/out/pkg'']\<rparr>)"
proof -
  have l1: "listing (files (start sample_fs)) ''/work/nested'' = Some [''a'']"
    and l2: "listing (files (start sample_fs)) ''/work/flat'' = Some [''mdbook'']"
    and l3: "listing (files (start sample_fs)) ''/work/out/pkg'' = Some [''LICENSE'', ''mdbook'']"
    and l4: "listing sample_fs ''/work/nested/a'' = Some [''b'']"
    by (simp_all add: start_def sample_fs_def)
  have n1: "nodes (files (start sample_fs)) (path_join ''/work/nested'' ''a'') = Some plain_dir"
    and n2: "nodes (files (start sample_fs)) (path_join ''/work/flat'' ''mdbook'') = Some plain_file"
    by (simp_all add: start_def sample_fs_def path_join_def)
  have d: "is_dir plain_dir" "\<not> is_dir plain_file"
    by (simp_all add: plain_dir_def plain_file_def)
  show ?thesis
    using single_directory_descent [OF l1, of "sample_host ''x64'' ''linux'' sample_pages" "''mdBook''" "''0.4.3''"]
      single_directory_descent [OF l2, of "sample_host ''x64'' ''linux'' sample_pages" "''mdBook''" "''0.4.3''"]
      single_directory_descent [OF l3, of "sample_host ''x64'' ''linux'' sample_pages" "''mdBook''" "''0.4.3''"]
      l1 l4 n1 n2 d
    by (simp add: start_def path_join_def sample_host_def)
qed


section \<open>Permission repair\<close>

lemma may_execute_755: "may_execute 493"
  by (simp add: may_execute_def)

lemma locate_binary:
  assumes "truthy_opt (bin t) \<or> listing (files w) d = Some entries"
  shows "(case bin t of
            Some b \<Rightarrow> if truthy b then ret b else findBin (tool.name t) d
          | None \<Rightarrow> findBin (tool.name t) d) w
         = (Inr (located_binary t entries), w\<lparr>trace := trace w @ repair_reads t d\<rparr>)"
  using assms
  by (auto simp: located_binary_def repair_reads_def truthy_opt_def findBin_def fs_readdir_def
        bind_def emit_def ret_def split: option.splits)

lemma repair_run:
  assumes "platform e \<noteq> ''win32''"
    and "truthy_opt (bin t) \<or> listing (files w) d = Some entries"
  shows "handleBadBinaryPermissions e t d w
           = catch (fs_access_X_OK (path_join d (located_binary t entries)))
               (\<lambda>_. fs_chmod (path_join d (located_binary t entries)) 493)
               (w\<lparr>trace := trace w @ repair_reads t d\<rparr>)"
  using assms(1) locate_binary [OF assms(2)]
  by (simp add: handleBadBinaryPermissions_def bind_def Let_def)

lemma repair_present:
  assumes "nodes (files w) p = Some n"
  shows "catch (fs_access_X_OK p) (\<lambda>_. fs_chmod p 493) w
           = (Inr (),
              if may_execute (mode n) then w\<lparr>trace := trace w @ [Access p]\<rparr>
              else w\<lparr>files := (files w)\<lparr>nodes := (nodes (files w))(p \<mapsto> n\<lparr>mode := 493\<rparr>)\<rparr>,
                     trace := trace w @ [Access p, Chmod p 493]\<rparr>)"
  using assms
  by (simp add: catch_def fs_access_X_OK_def fs_chmod_def bind_def emit_def)

lemma repair_absent:
  assumes "nodes (files w) p = None"
  shows "fst (catch (fs_access_X_OK p) (\<lambda>_. fs_chmod p 493) w)
           = Inl (Error (''ENOENT: no such file or directory, chmod '' @ p))"
  using assms
  by (simp add: catch_def fs_access_X_OK_def fs_chmod_def bind_def emit_def)

text \<open>
  Claim C7.  On win32 handleBadBinaryPermissions makes no call and changes nothing.  On any
  other platform the binary is the one named by \<^verbatim>\<open>bin\<close>, else the directory entry equal
  to the tool's name up to case, else the tool's name; if it exists the function
  succeeds and the binary is executable afterwards: untouched when the check passed, set
  to mode 0755 (decimal 493) when the check failed.  Every successful run leaves the
  binary executable.
\<close>

theorem permission_repair:
  "(platform e = ''win32'' \<longrightarrow> handleBadBinaryPermissions e t d w = (Inr (), w))
   \<and> (platform e \<noteq> ''win32''
        \<and> (truthy_opt (bin t) \<or> listing (files w) d = Some entries)
        \<and> nodes (files w) (path_join d (located_binary t entries)) = Some n \<longrightarrow>
        (\<exists>w'. handleBadBinaryPermissions e t d w = (Inr (), w')
           \<and> (\<exists>n'. nodes (files w') (path_join d (located_binary t entries)) = Some n'
                    \<and> may_execute (mode n'))
           \<and> (may_execute (mode n) \<longrightarrow>
                 w' = w\<lparr>trace := trace w @ repair_reads t d
                                   @ [Access (path_join d (located_binary t entries))]\<rparr>)
           \<and> (\<not> may_execute (mode n) \<longrightarrow>
                 w' = w\<lparr>files := (files w)\<lparr>nodes := (nodes (files w))
                                     (path_join d (located_binary t entries) \<mapsto> n\<lparr>mode := 493\<rparr>)\<rparr>,
                        trace := trace w @ repair_reads t d
                                   @ [Access (path_join d (located_binary t entries)),
                                      Chmod (path_join d (located_binary t entries)) 493]\<rparr>)))
   \<and> (platform e \<noteq> ''win32''
        \<and> (truthy_opt (bin t) \<or> listing (files w) d = Some entries)
        \<and> handleBadBinaryPermissions e t d w = (Inr (), w1) \<longrightarrow>
        (\<exists>n'. nodes (files w1) (path_join d (located_binary t entries)) = Some n'
               \<and> may_execute (mode n')))"
proof (intro conjI impI)
  assume "platform e = ''win32''"
  then show "handleBadBinaryPermissions e t d w = (Inr (), w)"
    by (simp add: handleBadBinaryPermissions_def ret_def)
next
  let ?p = "path_join d (located_binary t entries)"
  assume h: "platform e \<noteq> ''win32''
        \<and> (truthy_opt (bin t) \<or> listing (files w) d = Some entries)
        \<and> nodes (files w) ?p = Some n"
  then have run: "handleBadBinaryPermissions e t d w
      = catch (fs_access_X_OK ?p) (\<lambda>_. fs_chmod ?p 493) (w\<lparr>trace := trace w @ repair_reads t d\<rparr>)"
    using repair_run [of e t w d entries] by blast
  from h have "nodes (files (w\<lparr>trace := trace w @ repair_reads t d\<rparr>)) ?p = Some n" by simp
  from repair_present [OF this] run h
  show "\<exists>w'. handleBadBinaryPermissions e t d w = (Inr (), w')
           \<and> (\<exists>n'. nodes (files w') ?p = Some n' \<and> may_execute (mode n'))
           \<and> (may_execute (mode n) \<longrightarrow>
                 w' = w\<lparr>trace := trace w @ repair_reads t d @ [Access ?p]\<rparr>)
           \<and> (\<not> may_execute (mode n) \<longrightarrow>
                 w' = w\<lparr>files := (files w)\<lparr>nodes := (nodes (files w))(?p \<mapsto> n\<lparr>mode := 493\<rparr>)\<rparr>,
                        trace := trace w @ repair_reads t d @ [Access ?p, Chmod ?p 493]\<rparr>)"
    by (simp add: may_execute_755)
next
  let ?p = "path_join d (located_binary t entries)"
  assume h: "platform e \<noteq> ''win32''
        \<and> (truthy_opt (bin t) \<or> listing (files w) d = Some entries)
        \<and> handleBadBinaryPermissions e t d w = (Inr (), w1)"
  then have run: "catch (fs_access_X_OK ?p) (\<lambda>_. fs_chmod ?p 493) (w\<lparr>trace := trace w @ repair_reads t d\<rparr>)
      = (Inr (), w1)"
    using repair_run [of e t w d entries] by simp
  show "\<exists>n'. nodes (files w1) ?p = Some n' \<and> may_execute (mode n')"
  proof (cases "nodes (files w) ?p")
    case None
    then have "nodes (files (w\<lparr>trace := trace w @ repair_reads t d\<rparr>)) ?p = None" by simp
    from repair_absent [OF this] run show ?thesis by simp
  next
    case (Some n)
    then have "nodes (files (w\<lparr>trace := trace w @ repair_reads t d\<rparr>)) ?p = Some n" by simp
    from repair_present [OF this] run Some show ?thesis
      by (auto simp: may_execute_755 split: if_splits)
  qed
qed

theorem permission_repair_witness:
  "handleBadBinaryPermissions (sample_host ''x64'' ''win32'' sample_pages) (mdBook None)
      ''/work/out/pkg'' (start sample_fs) = (Inr (), start sample_fs)
   \<and> located_binary (mdBook None) [''LICENSE'', ''mdbook''] = ''mdbook''
   \<and> \<not> may_execute (mode plain_file)
   \<and> handleBadBinaryPermissions (sample_host ''x64'' ''linux'' sample_pages) (mdBook None)
        ''/work/out/pkg'' (start sample_fs)
       = (Inr (),
          \<lparr>files = sample_fs\<lparr>nodes := (nodes sample_fs)
                       (''/work/out/pkg/mdbook'' \<mapsto> \<lparr>is_dir = False, mode = 493\<rparr>)\<rparr>,
           trace = [Readdir ''/work/out/pkg'', Access ''/work/out/pkg/mdbook'',
                    Chmod ''/work/out/pkg/mdbook'' 493]\<rparr>)"
proof -
  let ?w = "start sample_fs"
  have p: "platform (sample_host ''x64'' ''win32'' sample_pages) = ''win32''"
    "platform (sample_host ''x64'' ''linux'' sample_pages) \<noteq> ''win32''"
    by (simp_all add: sample_host_def)
  have l: "listing (files ?w) ''/work/out/pkg'' = Some [''LICENSE'', ''mdbook'']"
    by (simp add: start_def sample_fs_def)
  have b: "located_binary (mdBook None) [''LICENSE'', ''mdbook''] = ''mdbook''"
    by (simp add: located_binary_def mdBook_def toLowerCase_def lower_char_def)
  have n: "nodes (files ?w) (path_join ''/work/out/pkg'' (located_binary (mdBook None) [''LICENSE'', ''mdbook'']))
             = Some plain_file"
    by (simp add: b start_def sample_fs_def path_join_def)
  have x: "\<not> may_execute (mode plain_file)"
    by (simp add: may_execute_def plain_file_def)
  have r: "repair_reads (mdBook None) ''/work/out/pkg'' = [Readdir ''/work/out/pkg'']"
    by (simp add: repair_reads_def mdBook_def truthy_opt_def)
  show ?thesis
    using permission_repair [of "sample_host ''x64'' ''win32'' sample_pages" "mdBook None"
            "''/work/out/pkg''" ?w "[''LICENSE'', ''mdbook'']" plain_file ?w]
      permission_repair [of "sample_host ''x64'' ''linux'' sample_pages" "mdBook None"
            "''/work/out/pkg''" ?w "[''LICENSE'', ''mdbook'']" plain_file ?w]
      p l n x
    by (simp add: b r start_def path_join_def plain_file_def)
qed


section \<open>Conflicting inputs\<close>

text \<open>
  Claim C9.  A combined \<^verbatim>\<open>repo\<close> input together with an \<^verbatim>\<open>owner\<close> or a \<^verbatim>\<open>name\<close> input,
  and a version given both after the \<^verbatim>\<open>@\<close> of \<^verbatim>\<open>repo\<close> and in the \<^verbatim>\<open>version\<close> input,
  each end the run in \<^verbatim>\<open>setFailed\<close> with the world untouched: no request, no cache
  lookup, no file-system call has been made.
\<close>

theorem conflicting_inputs_fail_first:
  "(truthy repoSpec \<and> (truthy owner0 \<or> truthy name0) \<longrightarrow>
      main e repoSpec owner0 name0 token version0 w
        = (SetFailed ''When 'repo' is supplied, 'owner' and 'name' must not be provided'', w))
   \<and> (truthy repoSpec \<and> \<not> truthy owner0 \<and> \<not> truthy name0
        \<and> split2 CHR ''@'' repoSpec = (repo, Some v) \<and> truthy v \<and> truthy version0 \<longrightarrow>
      main e repoSpec owner0 name0 token version0 w
        = (SetFailed ''Both 'version' and 'repo' have a version specified, only one is allowed'',
           w))"
  by (simp add: main_def truthy_opt_def)

theorem conflicting_inputs_fail_first_witness:
  "main (sample_host ''x64'' ''linux'' sample_pages) ''rust-lang/mdBook'' ''rust-lang'' [] [] []
      (start sample_fs)
     = (SetFailed ''When 'repo' is supplied, 'owner' and 'name' must not be provided'',
        start sample_fs)
   \<and> split2 CHR ''@'' ''rust-lang/mdBook@0.4'' = (''rust-lang/mdBook'', Some ''0.4'')
   \<and> main (sample_host ''x64'' ''linux'' sample_pages) ''rust-lang/mdBook@0.4'' [] [] [] ''0.5''
        (start sample_fs)
       = (SetFailed ''Both 'version' and 'repo' have a version specified, only one is allowed'',
          start sample_fs)"
  using conflicting_inputs_fail_first
          [of "''rust-lang/mdBook''" "''rust-lang''" "[]" "sample_host ''x64'' ''linux'' sample_pages"
              "[]" "[]" "start sample_fs" "[]" "[]"]
        conflicting_inputs_fail_first
          [of "''rust-lang/mdBook@0.4''" "[]" "[]" "sample_host ''x64'' ''linux'' sample_pages"
              "[]" "''0.5''" "start sample_fs" "''rust-lang/mdBook''" "''0.4''"]
  by (simp add: truthy_def split2_def)

end
